theory Spec2Isabelle
  imports Complex_Main
begin

section \<open>SyncRoom: room coordination and clock synchronisation\<close>

text \<open>
  A shallow embedding of \<^verbatim>\<open>services/mockSocketService.ts\<close> (the mock server that owns
  the room state) and of the class \<^verbatim>\<open>SyncManager\<close> in \<^verbatim>\<open>services/syncManager.ts\<close>
  (the client's clock estimator).

  JavaScript numbers are modelled as \<^typ>\<open>real\<close>: arithmetic is exact, rounding of
  IEEE doubles, \<^verbatim>\<open>NaN\<close> and the infinities are left out. A field of type
  \<^verbatim>\<open>number | null\<close> or \<^verbatim>\<open>string | null\<close> is an \<^typ>\<open>'a option\<close>, with \<^term>\<open>None\<close>
  for \<^verbatim>\<open>null\<close>. Where the source tests a value for truthiness, the model writes the
  test out: a number is falsy when it is \<^verbatim>\<open>null\<close> or \<open>0\<close>, a string when it is
  \<^verbatim>\<open>null\<close> or empty.
\<close>

subsection \<open>Data model (\<^verbatim>\<open>types.ts\<close>)\<close>

record User =
  user_id :: string
  user_name :: string
  isHost :: bool
  avatar :: "string option"

datatype TrackType = Stream | SharedFile

record Track =
  track_id :: string
  title :: string
  artist :: string
  url :: string
  fileId :: "string option"
  duration :: real
  coverUrl :: string
  track_type :: TrackType

datatype PlaybackState = PAUSED | PLAYING | BUFFERING

record RoomState =
  room_id :: string
  room_name :: string
  users :: "User list"
  queue :: "Track list"
  currentTrackId :: "string option"
  playbackState :: PlaybackState
  startAtServerTime :: "real option"
  pausedAtPosition :: "real option"
  adminId :: string
  playAllowedUserIds :: "string list"

text \<open>The messages of \<^verbatim>\<open>SocketMessage\<close> that the server sends, with their payloads.\<close>

datatype event =
    RoomUpdate RoomState
  | UserJoined User
  | UserLeft User
  | SyncPong real real real
  | PlayScheduled "string option" real real
  | PauseSync real real
  | SeekSync real real

text \<open>
  What the server does besides changing \<^verbatim>\<open>mockState\<close>, in the order of the source:
  \<^verbatim>\<open>saveState\<close> (the snapshot written to \<^verbatim>\<open>localStorage\<close>), \<^verbatim>\<open>broadcastGlobal\<close>,
  \<^verbatim>\<open>broadcastToLocal\<close>, and the calls into \<^verbatim>\<open>database\<close>.
\<close>

datatype effect =
    SaveState RoomState
  | BroadcastGlobal event
  | BroadcastToLocal event
  | DbSetPermission string string bool
  | DbUpsertUser User
  | DbLogPlay string string string
  | DbAddSong Track string

text \<open>
  The events \<^verbatim>\<open>handleServerEvent\<close> switches on, each with the fields it reads from the
  payload (\<^verbatim>\<open>payload.userId\<close> is a separate argument). The \<^verbatim>\<open>switch\<close> has no default
  case, so any other event name falls through.
\<close>

datatype command =
    SyncPing real
  | CmdGrantPlay string
  | CmdRevokePlay string
  | CmdPlay
  | CmdPlaySpecificTrack string
  | CmdPause
  | CmdSeek real
  | CmdAddTrack Track
  | CmdNext
  | OtherEvent string

subsection \<open>JavaScript array helpers\<close>

text \<open>\<^verbatim>\<open>Array.prototype.findIndex\<close>: the first index whose element passes, or \<open>-1\<close>.\<close>

fun findIndexFrom :: "('a \<Rightarrow> bool) \<Rightarrow> 'a list \<Rightarrow> int \<Rightarrow> int" where
  "findIndexFrom P [] i = -1"
| "findIndexFrom P (x # xs) i = (if P x then i else findIndexFrom P xs (i + 1))"

definition findIndex :: "('a \<Rightarrow> bool) \<Rightarrow> 'a list \<Rightarrow> int" where
  "findIndex P xs = findIndexFrom P xs 0"

text \<open>\<^verbatim>\<open>xs[i]\<close>: \<^verbatim>\<open>undefined\<close> (here \<^term>\<open>None\<close>) outside the array.\<close>

definition arrayAt :: "'a list \<Rightarrow> int \<Rightarrow> 'a option" where
  "arrayAt xs i = (if 0 \<le> i \<and> i < int (length xs) then Some (xs ! nat i) else None)"

text \<open>\<^verbatim>\<open>Array.from(new Set(xs))\<close>: first occurrences, in insertion order.\<close>

definition arrayFromSet :: "'a list \<Rightarrow> 'a list" where
  "arrayFromSet xs = fold (\<lambda>x acc. if x \<in> set acc then acc else acc @ [x]) xs []"

subsection \<open>The mock server (\<^verbatim>\<open>mockSocketService.ts\<close>)\<close>

definition SAMPLE_TRACKS :: "Track list" where
  "SAMPLE_TRACKS =
     [\<lparr>track_id = ''t1'', title = ''Neon Nights'', artist = ''Synthwave Boy'',
       url = ''https://www.soundhelix.com/examples/mp3/SoundHelix-Song-1.mp3'',
       fileId = None, duration = 372,
       coverUrl = ''https://picsum.photos/id/10/300/300'', track_type = Stream\<rparr>]"

text \<open>
  \<^verbatim>\<open>loadState\<close> reads the snapshot stored under the room's key; with nothing stored (or
  a snapshot that does not parse) it returns the default room.
\<close>

definition defaultState :: "string \<Rightarrow> RoomState" where
  "defaultState roomId =
     \<lparr>room_id = roomId, room_name = ''Room '' @ roomId, users = [],
      queue = SAMPLE_TRACKS, currentTrackId = Some ''t1'', playbackState = PAUSED,
      startAtServerTime = None, pausedAtPosition = Some 0, adminId = '''',
      playAllowedUserIds = []\<rparr>"

definition loadState :: "(string \<rightharpoonup> RoomState) \<Rightarrow> string \<Rightarrow> RoomState" where
  "loadState storage roomId =
     (case storage roomId of Some st \<Rightarrow> st | None \<Rightarrow> defaultState roomId)"

text \<open>
  \<^verbatim>\<open>MockSocket.connect\<close>, the body run under the room lock on the state \<^verbatim>\<open>loadState\<close>
  returned. The random \<^verbatim>\<open>userId\<close> and the answer \<^verbatim>\<open>allowedIds\<close> of
  \<^verbatim>\<open>database.getPermissions\<close> are arguments.
\<close>

definition connect ::
  "string \<Rightarrow> string \<Rightarrow> string \<Rightarrow> string list \<Rightarrow> RoomState \<Rightarrow> RoomState \<times> User \<times> effect list" where
  "connect userName roomId userId allowedIds st =
     (let isFirstUser = (length (users st) = 0);
          (st1, eff1) =
            (if isFirstUser then
               (st\<lparr>adminId := userId, playAllowedUserIds := [userId]\<rparr>,
                [DbSetPermission roomId userId True])
             else if adminId st = [] then
               (st\<lparr>adminId := userId, playAllowedUserIds := [userId]\<rparr>,
                [DbSetPermission roomId userId True])
             else
               (st\<lparr>playAllowedUserIds :=
                      arrayFromSet (playAllowedUserIds st @ allowedIds)\<rparr>, []));
          newUser = \<lparr>user_id = userId, user_name = userName,
                     isHost = (userId = adminId st1),
                     avatar = Some (''https://api.dicebear.com/7.x/avataaars/svg?seed='' @ userName)\<rparr>;
          st2 = st1\<lparr>users := users st1 @ [newUser]\<rparr>
      in (st2, newUser,
          eff1 @ [DbUpsertUser newUser, SaveState st2,
                  BroadcastGlobal (RoomUpdate st2), BroadcastGlobal (UserJoined newUser)]))"

text \<open>\<^verbatim>\<open>MockSocket.disconnect\<close>, the body run under the room lock on the loaded state.\<close>

definition disconnect :: "string \<Rightarrow> RoomState \<Rightarrow> RoomState \<times> effect list" where
  "disconnect userId st =
     (let userLeaving = find (\<lambda>u. user_id u = userId) (users st);
          st1 = st\<lparr>users := filter (\<lambda>u. user_id u \<noteq> userId) (users st)\<rparr>;
          (st2, eff2) =
            (if userId = adminId st1 then
               (case users st1 of
                  newAdmin # others \<Rightarrow>
                    (let st' = st1\<lparr>adminId := user_id newAdmin,
                                   users := newAdmin\<lparr>isHost := True\<rparr> # others\<rparr>
                     in if user_id newAdmin \<notin> set (playAllowedUserIds st') then
                          (st'\<lparr>playAllowedUserIds := playAllowedUserIds st' @ [user_id newAdmin]\<rparr>,
                           [DbSetPermission (room_id st') (user_id newAdmin) True])
                        else (st', []))
                | [] \<Rightarrow> (st1\<lparr>adminId := [], playAllowedUserIds := []\<rparr>, []))
             else (st1, []));
          st3 = st2\<lparr>playAllowedUserIds :=
                      filter (\<lambda>i. (\<exists>u \<in> set (users st2). user_id u = i) \<or> i = adminId st2)
                        (playAllowedUserIds st2)\<rparr>;
          st4 = st3\<lparr>users := map (\<lambda>u. u\<lparr>isHost := (user_id u = adminId st3)\<rparr>) (users st3)\<rparr>
      in (st4,
          eff2 @ [SaveState st4, BroadcastGlobal (RoomUpdate st4)] @
          (case userLeaving of Some u \<Rightarrow> [BroadcastGlobal (UserLeft u)] | None \<Rightarrow> [])))"

definition hasPermission :: "string \<Rightarrow> RoomState \<Rightarrow> bool" where
  "hasPermission userId st = (userId \<in> set (playAllowedUserIds st))"

definition isAdmin :: "string \<Rightarrow> RoomState \<Rightarrow> bool" where
  "isAdmin userId st = (adminId st = userId)"

text \<open>\<^verbatim>\<open>mockState.pausedAtPosition || 0\<close>.\<close>

definition pausedOrZero :: "RoomState \<Rightarrow> real" where
  "pausedOrZero st = (case pausedAtPosition st of None \<Rightarrow> 0 | Some p \<Rightarrow> p)"

text \<open>
  \<^verbatim>\<open>handleServerEvent\<close>, on the state it has just reloaded; \<open>serverNow\<close> is the value of
  \<^verbatim>\<open>MockSocket.getServerTime()\<close> read at entry. The result is the new \<^verbatim>\<open>mockState\<close>
  and the effects in the order they are issued; a branch that changes nothing issues none.
  The function is modelled for a room that is active: with \<^verbatim>\<open>activeRoomId\<close> unset the source
  returns before it loads anything, and \<^verbatim>\<open>emit\<close> calls it only once a room state exists.
\<close>

fun handleServerEvent :: "real \<Rightarrow> string \<Rightarrow> command \<Rightarrow> RoomState \<Rightarrow> RoomState \<times> effect list" where
  "handleServerEvent serverNow userId (SyncPing clientSendTime) st =
     (st, [BroadcastToLocal (SyncPong clientSendTime serverNow serverNow)])"
| "handleServerEvent serverNow userId (CmdGrantPlay targetUserId) st =
     (if isAdmin userId st then
        if targetUserId \<notin> set (playAllowedUserIds st) then
          (let st' = st\<lparr>playAllowedUserIds := playAllowedUserIds st @ [targetUserId]\<rparr>
           in (st', [DbSetPermission (room_id st') targetUserId True,
                     SaveState st', BroadcastGlobal (RoomUpdate st')]))
        else (st, [])
      else (st, []))"
| "handleServerEvent serverNow userId (CmdRevokePlay targetUserId) st =
     (if isAdmin userId st then
        if targetUserId \<noteq> adminId st then
          (let st' = st\<lparr>playAllowedUserIds :=
                         filter (\<lambda>i. i \<noteq> targetUserId) (playAllowedUserIds st)\<rparr>
           in (st', [DbSetPermission (room_id st') targetUserId False,
                     SaveState st', BroadcastGlobal (RoomUpdate st')]))
        else (st, [])
      else (st, []))"
| "handleServerEvent serverNow userId CmdPlay st =
     (if hasPermission userId st \<and> playbackState st \<noteq> PLAYING then
        (let leadTime = 500;
             playAt = serverNow + leadTime;
             st' = st\<lparr>playbackState := PLAYING,
                      startAtServerTime := Some (playAt - pausedOrZero st * 1000)\<rparr>
         in (st',
             (case currentTrackId st' of
                Some t \<Rightarrow> if t \<noteq> [] then [DbLogPlay (room_id st') t userId] else []
              | None \<Rightarrow> []) @
             [SaveState st', BroadcastGlobal (RoomUpdate st'),
              BroadcastGlobal (PlayScheduled (currentTrackId st') playAt (pausedOrZero st'))]))
      else (st, []))"
| "handleServerEvent serverNow userId (CmdPlaySpecificTrack trackId) st =
     (if hasPermission userId st then
        if \<exists>t \<in> set (queue st). track_id t = trackId then
          (let playAt = serverNow + 800;
               st' = st\<lparr>currentTrackId := Some trackId, playbackState := PLAYING,
                        pausedAtPosition := Some 0, startAtServerTime := Some playAt\<rparr>
           in (st', [DbLogPlay (room_id st') trackId userId,
                     SaveState st', BroadcastGlobal (RoomUpdate st'),
                     BroadcastGlobal (PlayScheduled (Some trackId) playAt 0)]))
        else (st, [])
      else (st, []))"
| "handleServerEvent serverNow userId CmdPause st =
     (if hasPermission userId st \<and> playbackState st = PLAYING then
        (let pauseAt = serverNow;
             elapsed = (case startAtServerTime st of
                          None \<Rightarrow> 0
                        | Some s \<Rightarrow> if s \<noteq> 0 then (pauseAt - s) / 1000 else 0);
             st' = st\<lparr>playbackState := PAUSED, pausedAtPosition := Some elapsed,
                      startAtServerTime := None\<rparr>
         in (st', [SaveState st', BroadcastGlobal (RoomUpdate st'),
                   BroadcastGlobal (PauseSync pauseAt elapsed)]))
      else (st, []))"
| "handleServerEvent serverNow userId (CmdSeek position) st =
     (if hasPermission userId st then
        (let seekAt = serverNow + 300;
             st1 = st\<lparr>pausedAtPosition := Some position\<rparr>;
             st' = (if playbackState st1 = PLAYING
                    then st1\<lparr>startAtServerTime := Some (seekAt - position * 1000)\<rparr>
                    else st1)
         in (st', [SaveState st', BroadcastGlobal (RoomUpdate st'),
                   BroadcastGlobal (SeekSync position seekAt)]))
      else (st, []))"
| "handleServerEvent serverNow userId (CmdAddTrack newTrack) st =
     (let st' = st\<lparr>queue := queue st @ [newTrack]\<rparr>
      in (st',
          (if track_type newTrack = SharedFile then [DbAddSong newTrack userId] else []) @
          [SaveState st', BroadcastGlobal (RoomUpdate st')]))"
| "handleServerEvent serverNow userId CmdNext st =
     (if hasPermission userId st then
        (let currentIndex = findIndex (\<lambda>t. Some (track_id t) = currentTrackId st) (queue st)
         in case arrayAt (queue st) (currentIndex + 1) of
              Some nextTrack \<Rightarrow>
                (let st' = st\<lparr>currentTrackId := Some (track_id nextTrack),
                              playbackState := PAUSED, pausedAtPosition := Some 0,
                              startAtServerTime := None\<rparr>
                 in (st', [SaveState st', BroadcastGlobal (RoomUpdate st')]))
            | None \<Rightarrow> (st, []))
      else (st, []))"
| "handleServerEvent serverNow userId (OtherEvent name) st = (st, [])"

subsection \<open>The clock estimator (\<^verbatim>\<open>SyncManager\<close> in \<^verbatim>\<open>syncManager.ts\<close>)\<close>

record SyncSample =
  rtt :: real
  offset :: real
  receivedAt :: real

record SyncManager =
  samples :: "SyncSample list"
  currentOffset :: real
  currentLatency :: real
  drift :: real
  jitter :: real

record AudioStats =
  stats_latency :: real
  stats_offset :: real
  stats_drift :: real
  stats_jitter :: real

definition WINDOW_SIZE :: nat where
  "WINDOW_SIZE = 20"

text \<open>The field initialisers of the class.\<close>

definition newSyncManager :: SyncManager where
  "newSyncManager = \<lparr>samples = [], currentOffset = 0, currentLatency = 0, drift = 0, jitter = 0\<rparr>"

text \<open>
  \<^verbatim>\<open>parseFloat(x.toFixed(f))\<close>: the decimal with \<open>f\<close> fraction digits nearest to \<open>x\<close>,
  the larger magnitude on a tie.
\<close>

definition toFixed :: "nat \<Rightarrow> real \<Rightarrow> real" where
  "toFixed f x = sgn x * of_int \<lfloor>\<bar>x\<bar> * 10 ^ f + 1 / 2\<rfloor> / 10 ^ f"

text \<open>The round-trip time computed at the head of \<^verbatim>\<open>processPong\<close>.\<close>

definition roundTrip :: "real \<Rightarrow> real \<Rightarrow> real \<Rightarrow> real \<Rightarrow> real" where
  "roundTrip clientSendTime serverReceiveTime serverReplyTime clientReceiveTime =
     (let networkDelay = (clientReceiveTime - clientSendTime) - (serverReplyTime - serverReceiveTime)
      in max 0 networkDelay)"

text \<open>
  The min-filter: \<^verbatim>\<open>samples.reduce((min, s) => (s.rtt < min.rtt ? s : min), samples[0])\<close>.
\<close>

definition bestSampleOf :: "SyncSample list \<Rightarrow> SyncSample" where
  "bestSampleOf xs = foldl (\<lambda>m s. if rtt s < rtt m then s else m) (hd xs) xs"

text \<open>
  \<^verbatim>\<open>processPong\<close>; \<open>clientReceiveTime\<close> is the value of \<^verbatim>\<open>Date.now()\<close> read at entry.
  The window is never empty where \<^term>\<open>bestSampleOf\<close>, \<^term>\<open>hd\<close> and \<^term>\<open>last\<close> read it
  (lemma \<open>processPong_samples\<close> below).
\<close>

definition processPong ::
  "SyncManager \<Rightarrow> real \<Rightarrow> real \<Rightarrow> real \<Rightarrow> real \<Rightarrow> SyncManager \<times> AudioStats" where
  "processPong this clientSendTime serverReceiveTime serverReplyTime clientReceiveTime =
     (let rtt' = roundTrip clientSendTime serverReceiveTime serverReplyTime clientReceiveTime;
          rawOffset = ((serverReceiveTime - clientSendTime) + (serverReplyTime - clientReceiveTime)) / 2;
          jitter' =
            (if length (samples this) > 0 then
               (let prevRtt = rtt (last (samples this));
                    diff = \<bar>rtt' - prevRtt\<bar>
                in jitter this + (diff - jitter this) / 16)
             else jitter this);
          sample = \<lparr>rtt = rtt', offset = rawOffset, receivedAt = clientReceiveTime\<rparr>;
          pushed = samples this @ [sample];
          samples' = (if length pushed > WINDOW_SIZE then tl pushed else pushed);
          bestSample = bestSampleOf samples';
          targetOffset = offset bestSample;
          drift' =
            (if length samples' \<ge> 2 then
               (let oldest = hd samples';
                    newest = last samples';
                    timeSpanSec = (receivedAt newest - receivedAt oldest) / 1000
                in if timeSpanSec > 1 then (offset newest - offset oldest) / timeSpanSec
                   else drift this)
             else drift this);
          currentOffset' =
            (if currentOffset this = 0 \<or> \<bar>targetOffset - currentOffset this\<bar> > 500
             then targetOffset
             else currentOffset this + (targetOffset - currentOffset this) * 0.15);
          currentLatency' = rtt bestSample / 2
      in (\<lparr>samples = samples', currentOffset = currentOffset', currentLatency = currentLatency',
            drift = drift', jitter = jitter'\<rparr>,
          \<lparr>stats_latency = toFixed 2 currentLatency', stats_offset = toFixed 2 currentOffset',
            stats_drift = toFixed 3 drift', stats_jitter = toFixed 2 jitter'\<rparr>))"

text \<open>
  A session: a manager fed the probes \<open>ps 0\<close>, \<open>ps 1\<close>, \<open>\<dots>\<close> in turn, each probe being the
  four time stamps of one call of \<^verbatim>\<open>processPong\<close>.
\<close>

type_synonym probe = "real \<times> real \<times> real \<times> real"

definition probeRtt :: "probe \<Rightarrow> real" where
  "probeRtt p = (case p of (t1, t2, t3, t4) \<Rightarrow> roundTrip t1 t2 t3 t4)"

definition pong :: "SyncManager \<Rightarrow> probe \<Rightarrow> SyncManager" where
  "pong this p = (case p of (t1, t2, t3, t4) \<Rightarrow> fst (processPong this t1 t2 t3 t4))"

definition session :: "SyncManager \<Rightarrow> (nat \<Rightarrow> probe) \<Rightarrow> nat \<Rightarrow> SyncManager" where
  "session this ps n = foldl pong this (map ps [0..<n])"

definition jitterAfter :: "SyncManager \<Rightarrow> (nat \<Rightarrow> probe) \<Rightarrow> nat \<Rightarrow> real" where
  "jitterAfter this ps n = jitter (session this ps n)"

text \<open>One probe every second, answered at once by the server, with round trips \<open>r1, r2, r1, \<dots>\<close>.\<close>

definition alternating :: "real \<Rightarrow> real \<Rightarrow> nat \<Rightarrow> probe" where
  "alternating r1 r2 i =
     (1000 * real i, 1000 * real i, 1000 * real i,
      1000 * real i + (if even i then r1 else r2))"

text \<open>The smoothing target of a manager: the raw offset of the best sample of its window.\<close>

definition targetOffsetOf :: "SyncManager \<Rightarrow> real" where
  "targetOffsetOf this = offset (bestSampleOf (samples this))"

subsection \<open>The room invariant and the operations on a room\<close>

definition userIds :: "RoomState \<Rightarrow> string set" where
  "userIds st = user_id ` set (users st)"

definition adminInvariant :: "RoomState \<Rightarrow> bool" where
  "adminInvariant st =
     (users st \<noteq> [] \<longrightarrow> adminId st \<in> userIds st \<and> adminId st \<in> set (playAllowedUserIds st))"

definition permittedInvariant :: "RoomState \<Rightarrow> bool" where
  "permittedInvariant st =
     (\<forall>i \<in> set (playAllowedUserIds st). i \<in> userIds st \<or> i = adminId st)"

definition roomInvariant :: "RoomState \<Rightarrow> bool" where
  "roomInvariant st = (adminInvariant st \<and> permittedInvariant st)"

text \<open>The three ways the server changes a room: a join, a leave, a command.\<close>

datatype operation =
    Join string string string "string list"
  | Leave string
  | Command real string command

fun applyOperation :: "operation \<Rightarrow> RoomState \<Rightarrow> RoomState" where
  "applyOperation (Join userName roomId userId allowedIds) st =
     fst (connect userName roomId userId allowedIds st)"
| "applyOperation (Leave userId) st = fst (disconnect userId st)"
| "applyOperation (Command serverNow userId cmd) st = fst (handleServerEvent serverNow userId cmd st)"

text \<open>
  An operation names present users only: the target of a grant is a user of the room, and the
  permissions the database returns to a join are held by users of the room, the joiner or
  the admin.
\<close>

fun namesPresentOnly :: "operation \<Rightarrow> RoomState \<Rightarrow> bool" where
  "namesPresentOnly (Join userName roomId userId allowedIds) st =
     (set allowedIds \<subseteq> userIds st \<union> {userId, adminId st})"
| "namesPresentOnly (Command serverNow userId (CmdGrantPlay targetUserId)) st =
     (targetUserId \<in> userIds st)"
| "namesPresentOnly _ st = True"

text \<open>The room after \<^verbatim>\<open>cmd:next\<close> has selected track \<open>t\<close>.\<close>

definition afterNext :: "Track \<Rightarrow> RoomState \<Rightarrow> RoomState" where
  "afterNext t st = st\<lparr>currentTrackId := Some (track_id t), playbackState := PAUSED,
                        pausedAtPosition := Some 0, startAtServerTime := None\<rparr>"

subsection \<open>Example rooms and managers\<close>

definition ann :: User where
  "ann = \<lparr>user_id = ''a'', user_name = ''Ann'', isHost = True, avatar = None\<rparr>"

definition bob :: User where
  "bob = \<lparr>user_id = ''b'', user_name = ''Bob'', isHost = False, avatar = None\<rparr>"

definition cy :: User where
  "cy = \<lparr>user_id = ''c'', user_name = ''Cy'', isHost = False, avatar = None\<rparr>"

definition track2 :: Track where
  "track2 = \<lparr>track_id = ''t2'', title = ''Second'', artist = ''Nobody'', url = [],
             fileId = None, duration = 100, coverUrl = [], track_type = Stream\<rparr>"

text \<open>Ann alone in the default room, as its admin.\<close>

definition roomA :: RoomState where
  "roomA = (defaultState ''R1'')\<lparr>users := [ann], adminId := ''a'', playAllowedUserIds := [''a'']\<rparr>"

text \<open>Three members; the permitted list still holds the id of a user who is gone.\<close>

definition roomABC :: RoomState where
  "roomABC = (defaultState ''R1'')\<lparr>users := [ann, bob, cy], adminId := ''a'',
                                   playAllowedUserIds := [''a'', ''c'', ''z'']\<rparr>"

definition pausedRoom :: RoomState where
  "pausedRoom = roomA\<lparr>pausedAtPosition := Some 10\<rparr>"

definition playingRoom :: RoomState where
  "playingRoom = roomA\<lparr>playbackState := PLAYING, startAtServerTime := Some 500\<rparr>"

definition epochRoom :: RoomState where
  "epochRoom = roomA\<lparr>playbackState := PLAYING, startAtServerTime := Some 0\<rparr>"

definition twoTrackRoom :: RoomState where
  "twoTrackRoom = roomA\<lparr>queue := SAMPLE_TRACKS @ [track2]\<rparr>"

definition noCurrentRoom :: RoomState where
  "noCurrentRoom = roomA\<lparr>currentTrackId := None\<rparr>"

text \<open>A fresh manager after one probe whose raw offset is \<open>0\<close>, and after one whose raw offset is \<open>20\<close>.\<close>

definition zeroOffsetManager :: SyncManager where
  "zeroOffsetManager = fst (processPong newSyncManager 0 5 5 10)"

definition slewManager :: SyncManager where
  "slewManager = fst (processPong newSyncManager 0 25 25 10)"

section \<open>The room protocol\<close>

subsection \<open>Helper lemmas\<close>

lemma filter_neq_absent: "t \<notin> set xs \<Longrightarrow> filter (\<lambda>i. i \<noteq> t) xs = xs"
  by (induction xs) auto

lemma set_arrayFromSet_fold:
  "set (fold (\<lambda>x acc. if x \<in> set acc then acc else acc @ [x]) xs acc) = set xs \<union> set acc"
  by (induction xs arbitrary: acc) auto

lemma set_arrayFromSet: "set (arrayFromSet xs) = set xs"
  by (simp add: arrayFromSet_def set_arrayFromSet_fold)

lemma findIndexFrom_none: "\<forall>x \<in> set xs. \<not> P x \<Longrightarrow> findIndexFrom P xs i = - 1"
  by (induction xs arbitrary: i) auto

lemma findIndexFrom_first:
  "k < length xs \<Longrightarrow> P (xs ! k) \<Longrightarrow> \<forall>j < k. \<not> P (xs ! j) \<Longrightarrow> findIndexFrom P xs i = i + int k"
proof (induction xs arbitrary: i k)
  case Nil
  then show ?case by simp
next
  case (Cons x xs)
  show ?case
  proof (cases k)
    case 0
    with Cons.prems show ?thesis by simp
  next
    case (Suc k')
    with Cons.prems have "\<not> P x" by auto
    moreover have "findIndexFrom P xs (i + 1) = (i + 1) + int k'"
      using Cons.prems Suc by (intro Cons.IH) auto
    ultimately show ?thesis using Suc by simp
  qed
qed

lemma findIndex_none: "\<forall>x \<in> set xs. \<not> P x \<Longrightarrow> findIndex P xs = - 1"
  by (simp add: findIndex_def findIndexFrom_none)

lemma findIndex_first:
  "k < length xs \<Longrightarrow> P (xs ! k) \<Longrightarrow> \<forall>j < k. \<not> P (xs ! j) \<Longrightarrow> findIndex P xs = int k"
  by (simp add: findIndex_def findIndexFrom_first)

subsection \<open>The invariant, operation by operation\<close>

lemma connect_admin: "adminInvariant st \<Longrightarrow> adminInvariant (fst (connect n r u ids st))"
  by (auto simp: adminInvariant_def userIds_def connect_def Let_def set_arrayFromSet
           split: prod.splits if_splits)

lemma connect_permitted:
  "permittedInvariant st \<Longrightarrow> set ids \<subseteq> userIds st \<union> {u, adminId st} \<Longrightarrow>
   permittedInvariant (fst (connect n r u ids st))"
  by (auto simp: permittedInvariant_def userIds_def connect_def Let_def set_arrayFromSet
           split: prod.splits if_splits)

lemma disconnect_permitted: "permittedInvariant (fst (disconnect u st))"
  by (auto simp: permittedInvariant_def userIds_def disconnect_def Let_def image_iff
           split: prod.splits if_splits list.splits)

lemma disconnect_admin: "adminInvariant st \<Longrightarrow> adminInvariant (fst (disconnect u st))"
  by (auto simp: adminInvariant_def userIds_def disconnect_def Let_def image_iff filter_empty_conv
           split: prod.splits if_splits list.splits)

lemma command_admin: "adminInvariant st \<Longrightarrow> adminInvariant (fst (handleServerEvent now u c st))"
  by (cases c) (auto simp: adminInvariant_def userIds_def Let_def split: option.splits)

lemma command_permitted:
  "permittedInvariant st \<Longrightarrow> namesPresentOnly (Command now u c) st \<Longrightarrow>
   permittedInvariant (fst (handleServerEvent now u c st))"
  by (cases c) (auto simp: permittedInvariant_def userIds_def Let_def split: option.splits)

lemma operation_admin: "adminInvariant st \<Longrightarrow> adminInvariant (applyOperation op st)"
  by (cases op) (simp_all add: connect_admin disconnect_admin command_admin)

lemma operation_permitted:
  "permittedInvariant st \<Longrightarrow> namesPresentOnly op st \<Longrightarrow> permittedInvariant (applyOperation op st)"
  by (cases op) (simp_all add: connect_permitted disconnect_permitted command_permitted)

text \<open>
  Claim C1, as stated: every operation (join, leave, command) preserves the room invariant,
  that is, whenever the users list is non-empty \<open>adminId\<close> is the id of a present user and
  a member of \<open>playAllowedUserIds\<close>, and \<open>playAllowedUserIds\<close> holds no id absent from
  \<open>users\<close> other than the admin id.

  The code does not do that. \<^verbatim>\<open>cmd:grantPlay\<close> appends whatever target id the admin
  sends, present or not, and a join into a room that has an admin merges every id the
  permissions table returns for the room, where ids of users who left remain (a leave prunes
  the room's list but never the table). In \<^term>\<open>roomA\<close>, which satisfies the invariant,
  a grant to \<open>ghost\<close> and a join that loads the stored permission of \<open>b\<close> both break it.
\<close>

theorem room_invariant_counterexample:
  "roomInvariant roomA \<and>
   \<not> roomInvariant (applyOperation (Command 0 ''a'' (CmdGrantPlay ''ghost'')) roomA) \<and>
   \<not> roomInvariant (applyOperation (Join ''Cy'' ''R1'' ''c'' [''a'', ''b'']) roomA)"
  by (simp add: roomInvariant_def adminInvariant_def permittedInvariant_def userIds_def roomA_def
        ann_def defaultState_def isAdmin_def connect_def arrayFromSet_def Let_def)

text \<open>
  Claim C1, amended: every operation preserves the admin part of the invariant (whenever the
  users list is non-empty, \<open>adminId\<close> is the id of a present user and a member of
  \<open>playAllowedUserIds\<close>); every leave establishes the other part (no permitted id is absent
  from \<open>users\<close>, the admin id apart), whatever the room was; and every operation that names
  present users only (every command but a grant to an absent id, every leave, and a join
  whose stored permissions belong to present users, the joiner or the admin) preserves the
  whole invariant.
\<close>

theorem room_invariant_amended:
  "(adminInvariant st \<longrightarrow> adminInvariant (applyOperation op st)) \<and>
   permittedInvariant (applyOperation (Leave userId) st) \<and>
   (roomInvariant st \<and> namesPresentOnly op st \<longrightarrow> roomInvariant (applyOperation op st))"
  by (simp add: roomInvariant_def operation_admin operation_permitted disconnect_permitted)

theorem room_invariant_amended_witness:
  "adminInvariant roomABC \<and> \<not> permittedInvariant roomABC \<and>
   roomInvariant (applyOperation (Leave ''a'') roomABC) \<and>
   roomInvariant roomA \<and> namesPresentOnly (Join ''Bob'' ''R1'' ''b'' [''a'', ''b'']) roomA \<and>
   roomInvariant (applyOperation (Join ''Bob'' ''R1'' ''b'' [''a'', ''b'']) roomA)"
  using room_invariant_amended [of roomABC "Leave ''a''" "''a''"]
    room_invariant_amended [of roomA "Join ''Bob'' ''R1'' ''b'' [''a'', ''b'']" "''a''"]
  by (simp add: roomInvariant_def adminInvariant_def permittedInvariant_def userIds_def
        roomABC_def roomA_def ann_def bob_def cy_def defaultState_def)

subsection \<open>Commands\<close>

text \<open>
  Claim C3, as stated: \<^verbatim>\<open>next\<close> from a permitted user is a no-op when the current track id
  is missing from the queue.

  The code has no such case: \<^verbatim>\<open>findIndex\<close> answers \<open>-1\<close> for a missing id, the entry
  read is the one at index \<open>-1 + 1 = 0\<close>, and a non-empty queue has one. In
  \<^term>\<open>noCurrentRoom\<close> no track is current, and \<^verbatim>\<open>next\<close> selects the first track.
\<close>

theorem next_track_counterexample:
  "hasPermission ''a'' noCurrentRoom \<and>
   currentTrackId noCurrentRoom \<notin> set (map (Some \<circ> track_id) (queue noCurrentRoom)) \<and>
   currentTrackId (fst (handleServerEvent 0 ''a'' CmdNext noCurrentRoom)) = Some ''t1'' \<and>
   handleServerEvent 0 ''a'' CmdNext noCurrentRoom \<noteq> (noCurrentRoom, [])"
  by (simp add: noCurrentRoom_def roomA_def defaultState_def SAMPLE_TRACKS_def hasPermission_def
        findIndex_def arrayAt_def Let_def)

text \<open>
  Claim C3, amended: \<^verbatim>\<open>next\<close> from a permitted user, when the current track id first occurs
  in the queue at index \<open>k\<close>, selects the entry at index \<open>k + 1\<close> if there is one
  (\<open>currentTrackId\<close> becomes its id, \<open>playbackState\<close> \<open>PAUSED\<close>, \<open>pausedAtPosition\<close>
  \<open>0\<close>, \<open>startAtServerTime\<close> \<^verbatim>\<open>null\<close>; the snapshot is saved and broadcast) and is a
  no-op if \<open>k\<close> is the last index: there is no wraparound. When the current track id is
  missing from the queue, the command selects the first queue entry in the same way, and is
  a no-op only if the queue is empty.
\<close>

theorem next_track:
  assumes "hasPermission userId st"
  shows "(\<forall>k. k < length (queue st) \<and> currentTrackId st = Some (track_id (queue st ! k)) \<and>
               (\<forall>j < k. currentTrackId st \<noteq> Some (track_id (queue st ! j))) \<longrightarrow>
            handleServerEvent serverNow userId CmdNext st =
              (if Suc k < length (queue st)
               then (afterNext (queue st ! Suc k) st,
                     [SaveState (afterNext (queue st ! Suc k) st),
                      BroadcastGlobal (RoomUpdate (afterNext (queue st ! Suc k) st))])
               else (st, []))) \<and>
         ((\<forall>t \<in> set (queue st). currentTrackId st \<noteq> Some (track_id t)) \<longrightarrow>
            handleServerEvent serverNow userId CmdNext st =
              (case queue st of
                 [] \<Rightarrow> (st, [])
               | first # rest \<Rightarrow>
                   (afterNext first st,
                    [SaveState (afterNext first st), BroadcastGlobal (RoomUpdate (afterNext first st))])))"
proof (intro conjI allI impI)
  fix k
  assume k: "k < length (queue st) \<and> currentTrackId st = Some (track_id (queue st ! k)) \<and>
             (\<forall>j < k. currentTrackId st \<noteq> Some (track_id (queue st ! j)))"
  then have "findIndex (\<lambda>t. Some (track_id t) = currentTrackId st) (queue st) = int k"
    by (intro findIndex_first) auto
  then show "handleServerEvent serverNow userId CmdNext st =
              (if Suc k < length (queue st)
               then (afterNext (queue st ! Suc k) st,
                     [SaveState (afterNext (queue st ! Suc k) st),
                      BroadcastGlobal (RoomUpdate (afterNext (queue st ! Suc k) st))])
               else (st, []))"
    using assms by (simp add: arrayAt_def afterNext_def Let_def nat_add_distrib)
next
  assume "\<forall>t \<in> set (queue st). currentTrackId st \<noteq> Some (track_id t)"
  then have "findIndex (\<lambda>t. Some (track_id t) = currentTrackId st) (queue st) = - 1"
    by (intro findIndex_none) auto
  then show "handleServerEvent serverNow userId CmdNext st =
              (case queue st of
                 [] \<Rightarrow> (st, [])
               | first # rest \<Rightarrow>
                   (afterNext first st,
                    [SaveState (afterNext first st), BroadcastGlobal (RoomUpdate (afterNext first st))]))"
    using assms by (simp add: arrayAt_def afterNext_def Let_def split: list.splits)
qed

theorem next_track_witness:
  "hasPermission ''a'' twoTrackRoom \<and>
   currentTrackId twoTrackRoom = Some (track_id (queue twoTrackRoom ! 0)) \<and>
   fst (handleServerEvent 0 ''a'' CmdNext twoTrackRoom) = afterNext track2 twoTrackRoom \<and>
   currentTrackId (afterNext track2 twoTrackRoom) = Some ''t2'' \<and>
   handleServerEvent 7 ''a'' CmdNext (afterNext track2 twoTrackRoom) = (afterNext track2 twoTrackRoom, [])"
  using next_track [of "''a''" twoTrackRoom 0]
  by (simp add: hasPermission_def twoTrackRoom_def roomA_def defaultState_def SAMPLE_TRACKS_def
        track2_def afterNext_def findIndex_def arrayAt_def Let_def)

text \<open>
  Claim C9: \<^verbatim>\<open>play\<close> on a room that is already \<open>PLAYING\<close>, or from a submitter who is
  not in \<open>playAllowedUserIds\<close>, is a no-op: the room state is returned as it was (so
  \<open>playbackState\<close>, \<open>startAtServerTime\<close>, \<open>pausedAtPosition\<close> and \<open>currentTrackId\<close>
  keep their values) and no effect is issued: nothing is saved, no \<^verbatim>\<open>room:update\<close> and
  no \<^verbatim>\<open>play:scheduled\<close> is broadcast.
\<close>

theorem play_noop:
  "playbackState st = PLAYING \<or> \<not> hasPermission userId st \<Longrightarrow>
     handleServerEvent serverNow userId CmdPlay st = (st, [])"
  by auto

theorem play_noop_witness:
  "playbackState playingRoom = PLAYING \<and> hasPermission ''a'' playingRoom \<and>
   handleServerEvent 1000 ''a'' CmdPlay playingRoom = (playingRoom, []) \<and>
   \<not> hasPermission ''b'' roomA \<and> playbackState roomA = PAUSED \<and>
   handleServerEvent 1000 ''b'' CmdPlay roomA = (roomA, [])"
  using play_noop [of playingRoom "''a''" 1000] play_noop [of roomA "''b''" 1000]
  by (simp add: playingRoom_def roomA_def defaultState_def hasPermission_def)

text \<open>
  Claim C6: continuity of \<^verbatim>\<open>play\<close>. When a permitted user issues \<^verbatim>\<open>play\<close> at server time
  \<open>serverNow\<close> on a room that is not already \<open>PLAYING\<close> (on a \<open>PLAYING\<close> room the
  command does nothing, claim C9), with \<open>p\<close> the room's \<open>pausedAtPosition\<close> (\<open>0\<close> when it
  is \<^verbatim>\<open>null\<close>) and the lead 500 ms, the stored \<open>startAtServerTime\<close> is
  \<open>(serverNow + 500) - p * 1000\<close>, so at the execution instant \<open>playAt = serverNow + 500\<close>
  the elapsed position \<open>(playAt - startAt) / 1000\<close> is exactly \<open>p\<close>; and the last event
  issued is \<^verbatim>\<open>play:scheduled\<close> with the current track, that \<open>playAt\<close> and
  \<open>startOffset = p\<close>.
\<close>

theorem play_continuity:
  assumes "hasPermission userId st" and "playbackState st \<noteq> PLAYING"
  shows "playbackState (fst (handleServerEvent serverNow userId CmdPlay st)) = PLAYING \<and>
         startAtServerTime (fst (handleServerEvent serverNow userId CmdPlay st)) =
           Some ((serverNow + 500) - pausedOrZero st * 1000) \<and>
         (\<forall>startAt. startAtServerTime (fst (handleServerEvent serverNow userId CmdPlay st)) = Some startAt \<longrightarrow>
            ((serverNow + 500) - startAt) / 1000 = pausedOrZero st) \<and>
         last (snd (handleServerEvent serverNow userId CmdPlay st)) =
           BroadcastGlobal (PlayScheduled (currentTrackId st) (serverNow + 500) (pausedOrZero st)) \<and>
         (\<forall>p. pausedAtPosition st = Some p \<longrightarrow> pausedOrZero st = p) \<and>
         (pausedAtPosition st = None \<longrightarrow> pausedOrZero st = 0)"
  using assms by (simp add: Let_def pausedOrZero_def)

theorem play_continuity_witness:
  "hasPermission ''a'' pausedRoom \<and> playbackState pausedRoom \<noteq> PLAYING \<and>
   pausedAtPosition pausedRoom = Some 10 \<and>
   startAtServerTime (fst (handleServerEvent 0 ''a'' CmdPlay pausedRoom)) = Some (- 9500) \<and>
   (500 - (- 9500)) / 1000 = (10 :: real) \<and>
   last (snd (handleServerEvent 0 ''a'' CmdPlay pausedRoom)) =
     BroadcastGlobal (PlayScheduled (Some ''t1'') 500 10)"
proof -
  have h1: "hasPermission ''a'' pausedRoom"
    by (simp add: pausedRoom_def roomA_def hasPermission_def)
  have h2: "playbackState pausedRoom \<noteq> PLAYING"
    by (simp add: pausedRoom_def roomA_def defaultState_def)
  have p: "pausedAtPosition pausedRoom = Some 10" "pausedOrZero pausedRoom = 10"
    by (simp_all add: pausedRoom_def pausedOrZero_def)
  have c: "currentTrackId pausedRoom = Some ''t1''"
    by (simp add: pausedRoom_def roomA_def defaultState_def)
  from play_continuity [OF h1 h2, of 0]
  have "startAtServerTime (fst (handleServerEvent 0 ''a'' CmdPlay pausedRoom)) =
          Some ((0 + 500) - pausedOrZero pausedRoom * 1000)"
    and "last (snd (handleServerEvent 0 ''a'' CmdPlay pausedRoom)) =
          BroadcastGlobal (PlayScheduled (currentTrackId pausedRoom) (0 + 500) (pausedOrZero pausedRoom))"
    by blast+
  with h1 h2 p c show ?thesis
    by simp
qed

text \<open>
  Claim C5: \<^verbatim>\<open>seek(position)\<close> from a permitted user while the room is \<open>PLAYING\<close> stores
  \<open>startAtServerTime = (serverNow + 300) - position * 1000\<close> (and \<open>pausedAtPosition =
  position\<close>, the room staying \<open>PLAYING\<close>), and broadcasts \<^verbatim>\<open>seek:sync\<close> with the position
  and the execution instant \<open>serverNow + 300\<close>. Hence at every instant \<open>t\<close> (in ms) the
  elapsed position \<open>(t - startAt) / 1000\<close> equals \<open>position + (t - executionInstant) / 1000\<close>:
  for \<^verbatim>\<open>seek(42)\<close>, 42 s plus the time since the execution instant, in seconds.
\<close>

theorem seek_while_playing:
  assumes "hasPermission userId st" and "playbackState st = PLAYING"
  shows "startAtServerTime (fst (handleServerEvent serverNow userId (CmdSeek position) st)) =
           Some ((serverNow + 300) - position * 1000) \<and>
         pausedAtPosition (fst (handleServerEvent serverNow userId (CmdSeek position) st)) = Some position \<and>
         playbackState (fst (handleServerEvent serverNow userId (CmdSeek position) st)) = PLAYING \<and>
         last (snd (handleServerEvent serverNow userId (CmdSeek position) st)) =
           BroadcastGlobal (SeekSync position (serverNow + 300)) \<and>
         (\<forall>startAt t. startAtServerTime (fst (handleServerEvent serverNow userId (CmdSeek position) st)) = Some startAt \<longrightarrow>
            (t - startAt) / 1000 = position + (t - (serverNow + 300)) / 1000) \<and>
         (\<forall>startAt t. startAtServerTime (fst (handleServerEvent serverNow userId (CmdSeek 42) st)) = Some startAt \<longrightarrow>
            (t - startAt) / 1000 = 42 + (t - (serverNow + 300)) / 1000)"
  using assms by (simp add: Let_def field_simps)

theorem seek_while_playing_witness:
  "hasPermission ''a'' playingRoom \<and> playbackState playingRoom = PLAYING \<and>
   startAtServerTime (fst (handleServerEvent 1000 ''a'' (CmdSeek 42) playingRoom)) = Some (- 40700) \<and>
   (2300 - (- 40700)) / 1000 = (42 + (2300 - (1000 + 300)) / 1000 :: real)"
  using seek_while_playing [of "''a''" playingRoom 1000 42]
  by (simp add: playingRoom_def roomA_def defaultState_def hasPermission_def)

text \<open>
  Claim C10, as stated: \<^verbatim>\<open>pause\<close> from a permitted user while \<open>PLAYING\<close> sets
  \<open>pausedAtPosition\<close> to exactly \<open>(pauseAt - startAtServerTime) / 1000\<close>, and to \<open>0\<close> when
  \<open>startAtServerTime\<close> is \<^verbatim>\<open>null\<close>.

  The source guards the division with the truthiness of \<open>startAtServerTime\<close>, and the number
  \<open>0\<close> is falsy as \<^verbatim>\<open>null\<close> is. In \<^term>\<open>epochRoom\<close> the start instant is \<open>0\<close>; a pause
  at server time 1000 records position \<open>0\<close>, not \<open>(1000 - 0) / 1000 = 1\<close>.
\<close>

theorem pause_position_counterexample:
  "hasPermission ''a'' epochRoom \<and> playbackState epochRoom = PLAYING \<and>
   startAtServerTime epochRoom = Some 0 \<and>
   pausedAtPosition (fst (handleServerEvent 1000 ''a'' CmdPause epochRoom)) = Some 0 \<and>
   (1000 - 0) / 1000 \<noteq> (0 :: real)"
  by (simp add: epochRoom_def roomA_def defaultState_def hasPermission_def Let_def)

text \<open>
  Claim C10, amended: \<^verbatim>\<open>pause\<close> from a permitted user while \<open>PLAYING\<close>, with
  \<open>startAtServerTime\<close> a number other than \<open>0\<close>, sets \<open>pausedAtPosition\<close> to exactly
  \<open>(pauseAt - startAtServerTime) / 1000\<close> with no lower clamp, so a pause processed before the
  scheduled start instant (\<open>pauseAt < startAtServerTime\<close>) records a negative position; when
  \<open>startAtServerTime\<close> is \<^verbatim>\<open>null\<close> or \<open>0\<close> the recorded position is \<open>0\<close>. A \<^verbatim>\<open>play\<close> that
  follows feeds the recorded position \<open>p\<close>, unclamped, into
  \<open>startAt = (later + 500) - p * 1000\<close>.
\<close>

theorem pause_position:
  assumes "hasPermission userId st" and "playbackState st = PLAYING"
  shows "(\<forall>s. startAtServerTime st = Some s \<and> s \<noteq> 0 \<longrightarrow>
            pausedAtPosition (fst (handleServerEvent serverNow userId CmdPause st)) = Some ((serverNow - s) / 1000) \<and>
            (serverNow < s \<longrightarrow> (serverNow - s) / 1000 < 0)) \<and>
         (startAtServerTime st = None \<or> startAtServerTime st = Some 0 \<longrightarrow>
            pausedAtPosition (fst (handleServerEvent serverNow userId CmdPause st)) = Some 0) \<and>
         playbackState (fst (handleServerEvent serverNow userId CmdPause st)) = PAUSED \<and>
         (\<forall>p later. pausedAtPosition (fst (handleServerEvent serverNow userId CmdPause st)) = Some p \<longrightarrow>
            startAtServerTime (fst (handleServerEvent later userId CmdPlay
               (fst (handleServerEvent serverNow userId CmdPause st)))) = Some ((later + 500) - p * 1000))"
  using assms by (auto simp add: Let_def hasPermission_def pausedOrZero_def split: option.splits)

theorem pause_position_witness:
  "hasPermission ''a'' playingRoom \<and> playbackState playingRoom = PLAYING \<and>
   startAtServerTime playingRoom = Some 500 \<and>
   pausedAtPosition (fst (handleServerEvent 200 ''a'' CmdPause playingRoom)) = Some (- 3 / 10) \<and>
   startAtServerTime (fst (handleServerEvent 1000 ''a'' CmdPlay
      (fst (handleServerEvent 200 ''a'' CmdPause playingRoom)))) = Some 1800"
  using pause_position [of "''a''" playingRoom 200]
  by (simp add: playingRoom_def roomA_def defaultState_def hasPermission_def pausedOrZero_def Let_def)

text \<open>
  Claim C8: \<^verbatim>\<open>grantPlay\<close> and \<^verbatim>\<open>revokePlay\<close> are admin-only and idempotent. From a submitter
  who is not the admin both leave the room unchanged (and issue no effect); a revoke whose
  target is the admin id leaves it unchanged; a grant to an id already permitted and a revoke
  of an id not permitted leave \<open>playAllowedUserIds\<close> (indeed the whole room) unchanged; a
  successful grant adds exactly the target id, a successful revoke removes exactly the
  target id, and neither touches another field.
\<close>

theorem grant_revoke_admin_only_idempotent:
  "(\<not> isAdmin userId st \<longrightarrow>
      handleServerEvent serverNow userId (CmdGrantPlay target) st = (st, []) \<and>
      handleServerEvent serverNow userId (CmdRevokePlay target) st = (st, [])) \<and>
   handleServerEvent serverNow userId (CmdRevokePlay (adminId st)) st = (st, []) \<and>
   (target \<in> set (playAllowedUserIds st) \<longrightarrow>
      handleServerEvent serverNow userId (CmdGrantPlay target) st = (st, [])) \<and>
   (target \<notin> set (playAllowedUserIds st) \<longrightarrow>
      fst (handleServerEvent serverNow userId (CmdRevokePlay target) st) = st) \<and>
   (isAdmin userId st \<and> target \<notin> set (playAllowedUserIds st) \<longrightarrow>
      fst (handleServerEvent serverNow userId (CmdGrantPlay target) st) =
        st\<lparr>playAllowedUserIds := playAllowedUserIds st @ [target]\<rparr> \<and>
      set (playAllowedUserIds (fst (handleServerEvent serverNow userId (CmdGrantPlay target) st))) =
        insert target (set (playAllowedUserIds st))) \<and>
   (isAdmin userId st \<and> target \<noteq> adminId st \<longrightarrow>
      fst (handleServerEvent serverNow userId (CmdRevokePlay target) st) =
        st\<lparr>playAllowedUserIds := filter (\<lambda>i. i \<noteq> target) (playAllowedUserIds st)\<rparr> \<and>
      set (playAllowedUserIds (fst (handleServerEvent serverNow userId (CmdRevokePlay target) st))) =
        set (playAllowedUserIds st) - {target})"
  by (auto simp: Let_def filter_neq_absent)

theorem grant_revoke_witness:
  "\<not> isAdmin ''b'' roomABC \<and> isAdmin ''a'' roomABC \<and>
   handleServerEvent 0 ''b'' (CmdGrantPlay ''b'') roomABC = (roomABC, []) \<and>
   handleServerEvent 0 ''b'' (CmdRevokePlay ''c'') roomABC = (roomABC, []) \<and>
   handleServerEvent 0 ''a'' (CmdRevokePlay ''a'') roomABC = (roomABC, []) \<and>
   playAllowedUserIds (fst (handleServerEvent 0 ''a'' (CmdGrantPlay ''b'') roomABC)) = [''a'', ''c'', ''z'', ''b''] \<and>
   playAllowedUserIds (fst (handleServerEvent 0 ''a'' (CmdRevokePlay ''c'') roomABC)) = [''a'', ''z'']"
  using grant_revoke_admin_only_idempotent [of "''b''" roomABC 0 "''b''"]
    grant_revoke_admin_only_idempotent [of "''b''" roomABC 0 "''c''"]
    grant_revoke_admin_only_idempotent [of "''a''" roomABC 0 "''b''"]
    grant_revoke_admin_only_idempotent [of "''a''" roomABC 0 "''c''"]
  by (simp add: roomABC_def defaultState_def isAdmin_def)

subsection \<open>Admin departure\<close>

text \<open>
  Claim C7: when the admin disconnects from a room that still has other members, the
  earliest remaining member (the first of the stored user list once the leaver is removed)
  becomes admin, the order of the remaining members is kept, and the new admin is in
  \<open>playAllowedUserIds\<close> afterwards; the departed admin's id is not; and the permitted ids
  afterwards are those permitted before that belong to a remaining member, together with the
  new admin id.
\<close>

theorem admin_departure:
  assumes "userId = adminId st"
    and "filter (\<lambda>u. user_id u \<noteq> userId) (users st) = newAdmin # others"
  shows "adminId (fst (disconnect userId st)) = user_id newAdmin \<and>
         map user_id (users (fst (disconnect userId st))) = map user_id (newAdmin # others) \<and>
         (\<forall>u \<in> set (users (fst (disconnect userId st))). isHost u = (user_id u = user_id newAdmin)) \<and>
         user_id newAdmin \<in> set (playAllowedUserIds (fst (disconnect userId st))) \<and>
         userId \<notin> set (playAllowedUserIds (fst (disconnect userId st))) \<and>
         set (playAllowedUserIds (fst (disconnect userId st))) =
           {i \<in> set (playAllowedUserIds st). i \<in> user_id ` set (newAdmin # others)} \<union> {user_id newAdmin}"
proof -
  have "set (newAdmin # others) = {u \<in> set (users st). user_id u \<noteq> userId}"
    using assms(2) [symmetric] by simp
  then have ne: "user_id newAdmin \<noteq> userId" and others: "\<forall>u \<in> set others. user_id u \<noteq> userId"
    by auto
  show ?thesis
    using assms ne others
    by (auto simp: disconnect_def Let_def image_iff split: prod.splits if_splits list.splits)
qed

theorem admin_departure_witness:
  "''a'' = adminId roomABC \<and>
   filter (\<lambda>u. user_id u \<noteq> ''a'') (users roomABC) = [bob, cy] \<and>
   adminId (fst (disconnect ''a'' roomABC)) = ''b'' \<and>
   playAllowedUserIds roomABC = [''a'', ''c'', ''z''] \<and>
   playAllowedUserIds (fst (disconnect ''a'' roomABC)) = [''c'', ''b'']"
  using admin_departure [of "''a''" roomABC bob "[cy]"]
  by (simp add: roomABC_def defaultState_def ann_def bob_def cy_def disconnect_def Let_def)

section \<open>The clock estimator\<close>

subsection \<open>The sample window and the min-filter\<close>

lemma window_push:
  "0 < n \<Longrightarrow> (if length (xs @ [x]) > n then tl (xs @ [x]) else xs @ [x]) \<noteq> [] \<and>
   last (if length (xs @ [x]) > n then tl (xs @ [x]) else xs @ [x]) = x"
  by (cases xs) auto

lemma processPong_samples:
  "samples (fst (processPong s t1 t2 t3 t4)) \<noteq> [] \<and>
   last (samples (fst (processPong s t1 t2 t3 t4))) =
     \<lparr>rtt = roundTrip t1 t2 t3 t4, offset = ((t2 - t1) + (t3 - t4)) / 2, receivedAt = t4\<rparr>"
  using window_push [where xs = "samples s" and n = WINDOW_SIZE]
  by (simp add: processPong_def Let_def WINDOW_SIZE_def del: length_append)

lemma foldl_min_rtt:
  "foldl (\<lambda>m s. if rtt s < rtt m then s else m) m xs \<in> insert m (set xs) \<and>
   rtt (foldl (\<lambda>m s. if rtt s < rtt m then s else m) m xs) \<le> rtt m \<and>
   (\<forall>x \<in> set xs. rtt (foldl (\<lambda>m s. if rtt s < rtt m then s else m) m xs) \<le> rtt x)"
proof (induction xs arbitrary: m)
  case Nil
  then show ?case by simp
next
  case (Cons x xs)
  show ?case
    using Cons.IH [of "if rtt x < rtt m then x else m"]
    by (auto split: if_splits)
qed

lemma bestSampleOf_min:
  "xs \<noteq> [] \<Longrightarrow> bestSampleOf xs \<in> set xs \<and> (\<forall>x \<in> set xs. rtt (bestSampleOf xs) \<le> rtt x)"
  using foldl_min_rtt [of "hd xs" xs] by (auto simp: bestSampleOf_def)

lemma processPong_currentOffset:
  "currentOffset (fst (processPong this t1 t2 t3 t4)) =
     (if currentOffset this = 0 \<or>
         \<bar>targetOffsetOf (fst (processPong this t1 t2 t3 t4)) - currentOffset this\<bar> > 500
      then targetOffsetOf (fst (processPong this t1 t2 t3 t4))
      else currentOffset this +
           (targetOffsetOf (fst (processPong this t1 t2 t3 t4)) - currentOffset this) * 0.15)"
  by (simp add: processPong_def Let_def targetOffsetOf_def)

subsection \<open>Offset smoothing\<close>

text \<open>
  Claim C4, as stated: a probe snaps the current offset to the min-filter target if no offset
  has been established yet or the target is more than 500 ms away, and slews it by 15 percent
  of the difference on every probe where an offset is already established and the target is
  within 500 ms.

  The source keeps no record of whether an offset was established: it tests
  \<^verbatim>\<open>this.currentOffset === 0\<close>. An offset that was established and is exactly \<open>0\<close> is taken
  for none. \<^term>\<open>zeroOffsetManager\<close> has processed one probe, whose raw offset \<open>0\<close> it
  adopted; the next probe has a shorter round trip and raw offset 100, within 500 ms, and the
  offset jumps to 100 where the slew gives 15.
\<close>

theorem offset_smoothing_counterexample:
  "samples zeroOffsetManager = [\<lparr>rtt = 10, offset = 0, receivedAt = 10\<rparr>] \<and>
   currentOffset zeroOffsetManager = 0 \<and>
   targetOffsetOf (fst (processPong zeroOffsetManager 2000 2102 2102 2004)) = 100 \<and>
   \<bar>100 - currentOffset zeroOffsetManager\<bar> \<le> 500 \<and>
   currentOffset (fst (processPong zeroOffsetManager 2000 2102 2102 2004)) = 100 \<and>
   currentOffset zeroOffsetManager + (100 - currentOffset zeroOffsetManager) * 0.15 = 15"
  by (simp add: zeroOffsetManager_def processPong_def newSyncManager_def roundTrip_def
        bestSampleOf_def targetOffsetOf_def WINDOW_SIZE_def Let_def)

text \<open>
  Claim C4, amended: on every probe, with the target the raw offset of a sample of least round
  trip in the window that includes the new sample, if the current offset is exactly \<open>0\<close> (the
  value of a fresh manager, which is how the source recognises that no offset is established)
  or the target differs from it by more than 500 ms, the current offset is set to the target;
  otherwise, that is whenever the current offset is not \<open>0\<close> and the target is within
  500 ms, it becomes \<open>current + (target - current) * 0.15\<close>.
\<close>

theorem offset_smoothing:
  "bestSampleOf (samples (fst (processPong this t1 t2 t3 t4))) \<in>
     set (samples (fst (processPong this t1 t2 t3 t4))) \<and>
   (\<forall>x \<in> set (samples (fst (processPong this t1 t2 t3 t4))).
      rtt (bestSampleOf (samples (fst (processPong this t1 t2 t3 t4)))) \<le> rtt x) \<and>
   (currentOffset this = 0 \<or>
    \<bar>targetOffsetOf (fst (processPong this t1 t2 t3 t4)) - currentOffset this\<bar> > 500 \<longrightarrow>
      currentOffset (fst (processPong this t1 t2 t3 t4)) =
        targetOffsetOf (fst (processPong this t1 t2 t3 t4))) \<and>
   (currentOffset this \<noteq> 0 \<and>
    \<bar>targetOffsetOf (fst (processPong this t1 t2 t3 t4)) - currentOffset this\<bar> \<le> 500 \<longrightarrow>
      currentOffset (fst (processPong this t1 t2 t3 t4)) =
        currentOffset this +
        (targetOffsetOf (fst (processPong this t1 t2 t3 t4)) - currentOffset this) * 0.15) \<and>
   currentOffset newSyncManager = 0"
  using bestSampleOf_min [of "samples (fst (processPong this t1 t2 t3 t4))"]
    processPong_samples [of this t1 t2 t3 t4] processPong_currentOffset [of this t1 t2 t3 t4]
  by (auto simp: newSyncManager_def)

theorem offset_smoothing_witness:
  "currentOffset slewManager = 20 \<and>
   targetOffsetOf (fst (processPong slewManager 2000 2102 2102 2004)) = 100 \<and>
   currentOffset (fst (processPong slewManager 2000 2102 2102 2004)) = 32 \<and>
   currentOffset (fst (processPong newSyncManager 0 25 25 10)) = 20"
  using offset_smoothing [of slewManager 2000 2102 2102 2004]
    offset_smoothing [of newSyncManager 0 25 25 10]
  by (simp add: slewManager_def processPong_def newSyncManager_def roundTrip_def
        bestSampleOf_def targetOffsetOf_def WINDOW_SIZE_def Let_def)

subsection \<open>Jitter\<close>

lemma session_Suc: "session s ps (Suc n) = pong (session s ps n) (ps n)"
  by (simp add: session_def)

lemma pong_samples:
  "samples (pong s p) \<noteq> [] \<and> rtt (last (samples (pong s p))) = probeRtt p"
  by (cases p) (simp add: pong_def probeRtt_def processPong_samples)

lemma processPong_jitter:
  "jitter (fst (processPong s t1 t2 t3 t4)) =
     (if samples s = [] then jitter s
      else jitter s + (\<bar>roundTrip t1 t2 t3 t4 - rtt (last (samples s))\<bar> - jitter s) / 16)"
  by (simp add: processPong_def Let_def)

lemma pong_jitter:
  "jitter (pong s p) =
     (if samples s = [] then jitter s
      else jitter s + (\<bar>probeRtt p - rtt (last (samples s))\<bar> - jitter s) / 16)"
  by (cases p) (simp add: pong_def probeRtt_def processPong_jitter)

lemma session_last:
  "samples (session s ps (Suc n)) \<noteq> [] \<and>
   rtt (last (samples (session s ps (Suc n)))) = probeRtt (ps n)"
  by (simp add: session_Suc pong_samples)

text \<open>
  When every two successive round trips differ by \<open>d\<close>, the distance of the jitter from \<open>d\<close>
  shrinks by the factor \<open>15/16\<close> with each probe after the first.
\<close>

lemma jitter_closed_form:
  assumes "\<forall>n. \<bar>probeRtt (ps (Suc n)) - probeRtt (ps n)\<bar> = d"
  shows "jitter (session s ps (Suc n)) = d + (jitter (session s ps 1) - d) * (15 / 16) ^ n"
proof (induction n)
  case 0
  then show ?case by simp
next
  case (Suc n)
  have "jitter (session s ps (Suc (Suc n))) =
          jitter (session s ps (Suc n)) + (d - jitter (session s ps (Suc n))) / 16"
    using assms session_last [of s ps n]
    by (simp add: session_Suc [of s ps "Suc n"] pong_jitter)
  also have "\<dots> = d + (jitter (session s ps (Suc n)) - d) * (15 / 16)"
    by (simp add: field_simps)
  also have "\<dots> = d + (jitter (session s ps 1) - d) * (15 / 16) ^ Suc n"
    by (simp add: Suc.IH)
  finally show ?case .
qed

lemma jitter_limit:
  assumes "\<forall>n. \<bar>probeRtt (ps (Suc n)) - probeRtt (ps n)\<bar> = d"
  shows "jitterAfter s ps \<longlonglongrightarrow> d"
proof -
  have "(\<lambda>n. (15 / 16 :: real) ^ n) \<longlonglongrightarrow> 0"
    by (rule LIMSEQ_realpow_zero) simp_all
  then have "(\<lambda>n. (jitter (session s ps 1) - d) * (15 / 16) ^ n)
               \<longlonglongrightarrow> (jitter (session s ps 1) - d) * 0"
    by (rule tendsto_mult_left)
  then have "(\<lambda>n. d + (jitter (session s ps 1) - d) * (15 / 16) ^ n)
               \<longlonglongrightarrow> d + (jitter (session s ps 1) - d) * 0"
    by (rule tendsto_add [OF tendsto_const])
  then have "(\<lambda>n. jitter (session s ps (Suc n))) \<longlonglongrightarrow> d"
    by (simp only: jitter_closed_form [OF assms] mult_zero_right add_0_right)
  then have "(\<lambda>n. jitter (session s ps n)) \<longlonglongrightarrow> d"
    by (rule LIMSEQ_imp_Suc)
  then show ?thesis
    by (simp add: jitterAfter_def [abs_def])
qed

lemma jitterAfter_fresh:
  assumes "\<forall>n. \<bar>probeRtt (ps (Suc n)) - probeRtt (ps n)\<bar> = d"
  shows "jitterAfter newSyncManager ps (Suc n) = d * (1 - (15 / 16) ^ n)"
proof -
  have "jitter (session newSyncManager ps 1) = 0"
    by (simp add: session_def pong_jitter newSyncManager_def)
  then show ?thesis
    using jitter_closed_form [OF assms, of newSyncManager n]
    by (simp add: jitterAfter_def algebra_simps)
qed

lemma probeRtt_alternating:
  "0 \<le> r1 \<Longrightarrow> 0 \<le> r2 \<Longrightarrow> probeRtt (alternating r1 r2 i) = (if even i then r1 else r2)"
  by (simp add: probeRtt_def alternating_def roundTrip_def)

text \<open>
  Claim C2, as stated: over probes whose round trips alternate between \<open>r1\<close> and \<open>r2\<close> the
  jitter converges to \<open>\<bar>r1 - r2\<bar> * 16 / 17\<close>.

  With the update \<open>J \<leftarrow> J + (D - J) / 16\<close> and every difference \<open>D\<close> equal to \<open>\<bar>r1 - r2\<bar>\<close>
  the fixed point is \<open>\<bar>r1 - r2\<bar>\<close> itself. For round trips \<open>0, 17, 0, 17, \<dots>\<close> fed to a
  fresh manager the jitter converges to 17, so it does not converge to
  \<open>\<bar>0 - 17\<bar> * 16 / 17 = 16\<close>.
\<close>

theorem jitter_counterexample:
  "\<not> jitterAfter newSyncManager (alternating 0 17) \<longlonglongrightarrow> \<bar>0 - 17\<bar> * 16 / 17"
proof
  assume a: "jitterAfter newSyncManager (alternating 0 17) \<longlonglongrightarrow> \<bar>0 - 17\<bar> * 16 / 17"
  have "\<forall>n. \<bar>probeRtt (alternating 0 17 (Suc n)) - probeRtt (alternating 0 17 n)\<bar> = 17"
    by (simp add: probeRtt_alternating)
  then have "jitterAfter newSyncManager (alternating 0 17) \<longlonglongrightarrow> 17"
    by (rule jitter_limit)
  with a have "\<bar>0 - 17\<bar> * 16 / 17 = (17 :: real)"
    by (rule LIMSEQ_unique)
  then show False by simp
qed

text \<open>
  Claim C2, amended: the jitter starts at \<open>0\<close>; the first probe of a manager (empty window)
  leaves it unchanged, and every later probe updates it as
  \<open>J \<leftarrow> J + (\<bar>rtt - prevRtt\<bar> - J) / 16\<close>, where \<open>prevRtt\<close> is the round trip of the last
  sample of the window, which is the previous probe's. Consequently, over any sequence of
  probes with constant round trip the jitter converges to \<open>0\<close>, and over probes whose round
  trips alternate between \<open>r1\<close> and \<open>r2\<close> it converges to \<open>\<bar>r1 - r2\<bar>\<close>, from whatever state
  the manager starts; from a fresh manager it is \<open>\<bar>r1 - r2\<bar> * (1 - (15/16) ^ n)\<close> after
  \<open>n + 1\<close> probes.
\<close>

theorem jitter_update_and_limits:
  "jitter newSyncManager = 0 \<and>
   jitter (fst (processPong this t1 t2 t3 t4)) =
     (if samples this = [] then jitter this
      else jitter this + (\<bar>roundTrip t1 t2 t3 t4 - rtt (last (samples this))\<bar> - jitter this) / 16) \<and>
   rtt (last (samples (fst (processPong this t1 t2 t3 t4)))) = roundTrip t1 t2 t3 t4 \<and>
   ((\<forall>i. probeRtt (ps i) = r) \<longrightarrow> jitterAfter this ps \<longlonglongrightarrow> 0) \<and>
   ((\<forall>i. probeRtt (qs i) = (if even i then r1 else r2)) \<longrightarrow>
      jitterAfter this qs \<longlonglongrightarrow> \<bar>r1 - r2\<bar> \<and>
      (\<forall>n. jitterAfter newSyncManager qs (Suc n) = \<bar>r1 - r2\<bar> * (1 - (15 / 16) ^ n)))"
proof (intro conjI impI)
  show "jitter newSyncManager = 0"
    by (simp add: newSyncManager_def)
  show "jitter (fst (processPong this t1 t2 t3 t4)) =
     (if samples this = [] then jitter this
      else jitter this + (\<bar>roundTrip t1 t2 t3 t4 - rtt (last (samples this))\<bar> - jitter this) / 16)"
    by (rule processPong_jitter)
  show "rtt (last (samples (fst (processPong this t1 t2 t3 t4)))) = roundTrip t1 t2 t3 t4"
    by (simp add: processPong_samples)
next
  assume "\<forall>i. probeRtt (ps i) = r"
  then have "\<forall>n. \<bar>probeRtt (ps (Suc n)) - probeRtt (ps n)\<bar> = 0"
    by simp
  then show "jitterAfter this ps \<longlonglongrightarrow> 0"
    by (rule jitter_limit)
next
  assume "\<forall>i. probeRtt (qs i) = (if even i then r1 else r2)"
  then have d: "\<forall>n. \<bar>probeRtt (qs (Suc n)) - probeRtt (qs n)\<bar> = \<bar>r1 - r2\<bar>"
    by auto
  then show "jitterAfter this qs \<longlonglongrightarrow> \<bar>r1 - r2\<bar>"
    by (rule jitter_limit)
  show "\<forall>n. jitterAfter newSyncManager qs (Suc n) = \<bar>r1 - r2\<bar> * (1 - (15 / 16) ^ n)"
    using jitterAfter_fresh [OF d] by simp
qed

theorem jitter_update_and_limits_witness:
  "(\<forall>i. probeRtt (alternating 5 5 i) = 5) \<and>
   jitterAfter newSyncManager (alternating 5 5) \<longlonglongrightarrow> 0 \<and>
   (\<forall>i. probeRtt (alternating 0 17 i) = (if even i then 0 else 17)) \<and>
   jitterAfter newSyncManager (alternating 0 17) \<longlonglongrightarrow> 17 \<and>
   jitterAfter newSyncManager (alternating 0 17) (Suc 1) = 17 / 16"
  using jitter_update_and_limits [of newSyncManager 0 0 0 0 "alternating 5 5" 5 "alternating 0 17" 0 17]
  by (simp add: probeRtt_alternating)

end
